theory Spec2Isabelle
  imports Main "HOL-Library.Multiset"
begin

section \<open>Data model\<close>

text \<open>
  The entities of \<^verbatim>\<open>src/models\<close> (account.ts, customer.ts, transaction.ts,
  ledgerEntry.ts). Identifiers are UUID strings, balances and amounts are JavaScript
  \<^verbatim>\<open>bigint\<close> values, hence unbounded integers. The \<^verbatim>\<open>createdAt\<close> columns are left
  out: no operation below reads them.
\<close>

type_synonym uuid = string

datatype AccountType = ASSET | LIABILITY | EQUITY

datatype AssetCode = BRL | USD | GBP

datatype ActorType = USER | SYSTEM | WEBHOOK

record Customer =
  cust_id :: uuid
  cust_email :: string
  cust_password :: string
  cust_name :: string

record Account =
  acc_id :: uuid
  acc_name :: string
  acc_ownerId :: uuid
  acc_type :: AccountType
  acc_balance :: int
  acc_currency :: AssetCode

record Transaction =
  tx_id :: uuid
  tx_description :: string
  tx_actorId :: uuid
  tx_actorType :: ActorType

record LedgerEntry =
  le_id :: uuid
  le_transactionId :: uuid
  le_accountId :: uuid
  le_amount :: int

text \<open>The persisted state: one list of rows per table.\<close>

record db =
  tbl_customers :: "Customer list"
  tbl_accounts :: "Account list"
  tbl_transactions :: "Transaction list"
  tbl_ledger_entries :: "LedgerEntry list"

text \<open>
  What the code takes from outside the store: the identifiers the database generates for
  new rows (\<open>gen n\<close> is the \<open>n\<close>-th identifier handed out during one call), and which of
  the storage operations of the unit of work throw (\<open>fails k\<close> for the \<open>k\<close>-th one):
  a lost connection, a constraint, a value the column cannot hold.
\<close>

record env =
  gen :: "nat \<Rightarrow> uuid"
  fails :: "nat \<Rightarrow> bool"

text \<open>
  Every \<^verbatim>\<open>throw new Error(...)\<close> of the two services is one constructor; the
  last one stands for an exception thrown by the storage layer itself.
\<close>

datatype error =
    UnbalancedTransaction    \<comment> \<open>'Transaction must balance: sum of all ledger entries must be zero'\<close>
  | InvalidEntryCount        \<comment> \<open>'Transaction must have at least 2 ledger entries'\<close>
  | ZeroAmountEntry          \<comment> \<open>'Ledger entries cannot have zero amount'\<close>
  | AccountNotFound          \<comment> \<open>'One or more accounts not found'\<close>
  | Forbidden                \<comment> \<open>'Forbidden: You can only create transactions with your own accounts'\<close>
  | CurrencyMismatch         \<comment> \<open>'All accounts in a transaction must have the same currency'\<close>
  | InsufficientBalance string int int
                             \<comment> \<open>'Insufficient balance in account NAME. Current: C, Required: R'\<close>
  | CustomerNotFound         \<comment> \<open>'Customer not found'\<close>
  | AccountNotFoundById      \<comment> \<open>'Account not found' of AccountService.findById\<close>
  | InvalidUuid              \<comment> \<open>QueryFailedError: invalid input syntax for type uuid: ""\<close>
  | StorageFailure nat

section \<open>Storage operations\<close>

text \<open>
  \<^verbatim>\<open>findOne(Account, { where: { id } })\<close> of the account service, for an id
  given in the text under which the row is stored.
\<close>

definition findOne_account :: "uuid \<Rightarrow> db \<Rightarrow> Account option" where
  "findOne_account x d = find (\<lambda>a. acc_id a = x) (tbl_accounts d)"

text \<open>
  The id columns have the type \<^verbatim>\<open>uuid\<close>. PostgreSQL compares uuid values, not
  their texts: it reads the hexadecimal digits in either case and writes them in lower
  case, so a stored id is in lower case and a text in upper case names the same row.
  JavaScript's \<^verbatim>\<open>===\<close> compares the texts. The empty string is not a uuid.
  The transaction service receives the ids of its entries as the caller wrote them.
\<close>

definition lower_hex :: "char \<Rightarrow> char" where
  "lower_hex c =
     (if c = CHR ''A'' then CHR ''a'' else if c = CHR ''B'' then CHR ''b''
      else if c = CHR ''C'' then CHR ''c'' else if c = CHR ''D'' then CHR ''d''
      else if c = CHR ''E'' then CHR ''e'' else if c = CHR ''F'' then CHR ''f'' else c)"

definition uuid_value :: "uuid \<Rightarrow> uuid" where
  "uuid_value x = map lower_hex x"

text \<open>
  \<^verbatim>\<open>accountRepository.find({ where: accountIds.map(id => ({ id })) })\<close>: the rows
  whose id is one of the listed ones (an OR of equalities on uuid values), each row
  once. The method calls it after the entry count check, so never with an empty list.
\<close>

definition find_accounts :: "uuid list \<Rightarrow> db \<Rightarrow> Account list" where
  "find_accounts ids d =
     filter (\<lambda>a. uuid_value (acc_id a) \<in> set (map uuid_value ids)) (tbl_accounts d)"

text \<open>
  \<^verbatim>\<open>manager.save(account)\<close>: the row with the entity's id is replaced; an entity
  whose id is not in the table is inserted.
\<close>

definition save_account :: "Account \<Rightarrow> db \<Rightarrow> db" where
  "save_account a d =
     (if list_ex (\<lambda>r. acc_id r = acc_id a) (tbl_accounts d)
      then d\<lparr>tbl_accounts := map (\<lambda>r. if acc_id r = acc_id a then a else r) (tbl_accounts d)\<rparr>
      else d\<lparr>tbl_accounts := tbl_accounts d @ [a]\<rparr>)"

text \<open>The rows as the uuid columns keep them.\<close>

definition stored_transaction :: "Transaction \<Rightarrow> Transaction" where
  "stored_transaction t = t\<lparr>tx_id := uuid_value (tx_id t), tx_actorId := uuid_value (tx_actorId t)\<rparr>"

definition stored_entry :: "LedgerEntry \<Rightarrow> LedgerEntry" where
  "stored_entry e =
     e\<lparr>le_transactionId := uuid_value (le_transactionId e), le_accountId := uuid_value (le_accountId e)\<rparr>"

definition save_transaction :: "Transaction \<Rightarrow> db \<Rightarrow> db" where
  "save_transaction t d = d\<lparr>tbl_transactions := tbl_transactions d @ [stored_transaction t]\<rparr>"

definition save_entry :: "LedgerEntry \<Rightarrow> db \<Rightarrow> db" where
  "save_entry e d = d\<lparr>tbl_ledger_entries := tbl_ledger_entries d @ [stored_entry e]\<rparr>"

text \<open>\<^verbatim>\<open>accountRepository.update(accountId, { balance })\<close>.\<close>

definition update_balance :: "uuid \<Rightarrow> int \<Rightarrow> db \<Rightarrow> db" where
  "update_balance x b d =
     d\<lparr>tbl_accounts := map (\<lambda>r. if acc_id r = x then r\<lparr>acc_balance := b\<rparr> else r) (tbl_accounts d)\<rparr>"

text \<open>
  The query runner's transaction: the operations of its manager read and write a
  working copy, which \<^verbatim>\<open>commitTransaction\<close> makes the persisted state and
  \<^verbatim>\<open>rollbackTransaction\<close> discards.
\<close>

record queryRunner =
  persisted :: db
  working :: db

definition startTransaction :: "db \<Rightarrow> queryRunner" where
  "startTransaction d = \<lparr>persisted = d, working = d\<rparr>"

definition commitTransaction :: "queryRunner \<Rightarrow> db" where
  "commitTransaction q = working q"

definition rollbackTransaction :: "queryRunner \<Rightarrow> db" where
  "rollbackTransaction q = persisted q"

definition manager_save :: "(db \<Rightarrow> db) \<Rightarrow> queryRunner \<Rightarrow> queryRunner" where
  "manager_save write q = q\<lparr>working := write (working q)\<rparr>"

text \<open>\<^verbatim>\<open>queryRunner.manager.findOne(Account, { where: { id } })\<close>.\<close>

definition manager_findOne_account :: "uuid \<Rightarrow> queryRunner \<Rightarrow> Account option" where
  "manager_findOne_account x q =
     find (\<lambda>a. uuid_value (acc_id a) = uuid_value x) (tbl_accounts (working q))"

section \<open>TransactionService.create\<close>

record entry_data =
  accountId :: uuid
  amount :: int

record create_data =
  description :: string
  actorId :: uuid
  actorType :: ActorType
  ledger_entries :: "entry_data list"

text \<open>Lines 30 to 41: the three checks on the entries, in the order of the source.\<close>

definition validate_entries :: "entry_data list \<Rightarrow> error option" where
  "validate_entries es =
     (let sum = foldl (\<lambda>acc entry. acc + amount entry) 0 es in
      if sum \<noteq> 0 then Some UnbalancedTransaction
      else if length es < 2 then Some InvalidEntryCount
      else if list_ex (\<lambda>entry. amount entry = 0) es then Some ZeroAmountEntry
      else None)"

text \<open>Lines 43 to 63: resolving the accounts, ownership, one currency.\<close>

definition authorize :: "entry_data list \<Rightarrow> uuid \<Rightarrow> db \<Rightarrow> error + Account list" where
  "authorize es authenticatedUserId d =
     (let accountIds = map accountId es;
          accounts = find_accounts accountIds d in
      if length accounts \<noteq> length accountIds then Inl AccountNotFound
      else
        let unauthorizedAccounts = filter (\<lambda>account. acc_ownerId account \<noteq> authenticatedUserId) accounts in
        if length unauthorizedAccounts > 0 then Inl Forbidden
        else
          let currencies = remdups (map acc_currency accounts) in
          if length currencies > 1 then Inl CurrencyMismatch
          else Inr accounts)"

text \<open>
  Lines 65 to 77: the balance check on the accounts as they were read. The entry's
  account is looked up among them by \<^verbatim>\<open>acc.id === entry.accountId\<close>, on the
  texts; an entry for which this finds no account is passed over.
\<close>

fun precheck :: "Account list \<Rightarrow> entry_data list \<Rightarrow> error option" where
  "precheck accounts [] = None"
| "precheck accounts (entry # rest) =
     (case find (\<lambda>acc. acc_id acc = accountId entry) accounts of
        None \<Rightarrow> precheck accounts rest
      | Some account \<Rightarrow>
          if acc_type account = ASSET \<and> acc_balance account + amount entry < 0
          then Some (InsufficientBalance (acc_name account) (acc_balance account) (- amount entry))
          else precheck accounts rest)"

text \<open>
  Lines 93 to 111: the loop over the entries inside the unit of work. \<open>k\<close> counts the
  storage operations, \<open>saved\<close> is \<^verbatim>\<open>ledgerEntries\<close>. Each entry is saved, then
  its account is read again and saved with the amount added to its balance. An error
  leaves the loop with what the runner has written so far.
\<close>

fun persist_entries ::
  "env \<Rightarrow> uuid \<Rightarrow> entry_data list \<Rightarrow> nat \<Rightarrow> queryRunner \<Rightarrow> LedgerEntry list
     \<Rightarrow> (error + nat \<times> LedgerEntry list) \<times> queryRunner" where
  "persist_entries ev tid [] k q saved = (Inr (k, saved), q)"
| "persist_entries ev tid (entryData # rest) k q saved =
     (if fails ev k then (Inl (StorageFailure k), q)
      else
        let savedEntry = \<lparr>le_id = gen ev (Suc (length saved)), le_transactionId = tid,
                          le_accountId = accountId entryData, le_amount = amount entryData\<rparr>;
            q1 = manager_save (save_entry savedEntry) q
        in
          if fails ev (k + 1) then (Inl (StorageFailure (k + 1)), q1)
          else
            (case manager_findOne_account (accountId entryData) q1 of
               None \<Rightarrow> persist_entries ev tid rest (k + 2) q1 (saved @ [savedEntry])
             | Some account \<Rightarrow>
                 if fails ev (k + 2) then (Inl (StorageFailure (k + 2)), q1)
                 else persist_entries ev tid rest (k + 3)
                        (manager_save
                           (save_account (account\<lparr>acc_balance := acc_balance account + amount entryData\<rparr>))
                           q1)
                        (saved @ [savedEntry])))"

text \<open>
  \<^verbatim>\<open>Transaction.create\<close> of the model (transaction.ts, lines 72 to 80): a new
  \<^verbatim>\<open>Transaction\<close>, whose \<^verbatim>\<open>id\<close> field is initialised to the empty string
  (line 15), with the description, the actor and the actor type assigned. The id is
  not assigned.
\<close>

definition Transaction_create :: "create_data \<Rightarrow> Transaction" where
  "Transaction_create data =
     \<lparr>tx_id = [], tx_description = description data, tx_actorId = actorId data,
      tx_actorType = actorType data\<rparr>"

text \<open>
  Lines 91 to 113 for the entity \<open>transaction\<close> built at lines 84 to 89: the save of
  the transaction row (storage operation 1), the loop, the commit (the last storage
  operation). The entity carries an id, so the insert sends it: the database refuses
  the empty string as a uuid, and inserts the row under any other id.
\<close>

definition try_block ::
  "env \<Rightarrow> Transaction \<Rightarrow> entry_data list \<Rightarrow> queryRunner
     \<Rightarrow> (error + Transaction \<times> LedgerEntry list) \<times> queryRunner" where
  "try_block ev transaction es q =
     (if fails ev 1 then (Inl (StorageFailure 1), q)
      else if tx_id transaction = [] then (Inl InvalidUuid, q)
      else
        let savedTransaction = transaction;
            q1 = manager_save (save_transaction savedTransaction) q
        in
          (case persist_entries ev (tx_id savedTransaction) es 2 q1 [] of
             (Inl e, q2) \<Rightarrow> (Inl e, q2)
           | (Inr (k, ledgerEntries), q2) \<Rightarrow>
               if fails ev k then (Inl (StorageFailure k), q2)
               else (Inr (savedTransaction, ledgerEntries), q2)))"

text \<open>Lines 84 to 118, the body of \<^verbatim>\<open>try\<close>, as the method runs it.\<close>

definition persisting ::
  "env \<Rightarrow> create_data \<Rightarrow> queryRunner \<Rightarrow> (error + Transaction \<times> LedgerEntry list) \<times> queryRunner" where
  "persisting ev data q = try_block ev (Transaction_create data) (ledger_entries data) q"

text \<open>
  Lines 79 to 124 around that body, for a given entity. Storage operation 0 is
  \<^verbatim>\<open>connect\<close> and \<^verbatim>\<open>startTransaction\<close>, before the \<^verbatim>\<open>try\<close>. The
  \<^verbatim>\<open>catch\<close> rolls back and throws the error again. The \<^verbatim>\<open>release\<close> of
  \<^verbatim>\<open>finally\<close> hands the connection back and touches no row, so it is not among
  the operations that can throw; a rollback that throws would change the error
  reported, not the persisted state.
\<close>

definition unit_of_work ::
  "env \<Rightarrow> Transaction \<Rightarrow> entry_data list \<Rightarrow> db \<Rightarrow> (error + Transaction \<times> LedgerEntry list) \<times> db" where
  "unit_of_work ev transaction es d =
     (if fails ev 0 then (Inl (StorageFailure 0), d)
      else
        let queryRunner = startTransaction d in
        (case try_block ev transaction es queryRunner of
           (Inl e, q) \<Rightarrow> (Inl e, rollbackTransaction q)
         | (Inr result, q) \<Rightarrow> (Inr result, commitTransaction q)))"

text \<open>
  The whole method. The result is what the caller gets (the error thrown, or the saved
  transaction with its entries) and the persisted state afterwards.
\<close>

definition TransactionService_create ::
  "env \<Rightarrow> create_data \<Rightarrow> uuid \<Rightarrow> db \<Rightarrow> (error + Transaction \<times> LedgerEntry list) \<times> db" where
  "TransactionService_create ev data authenticatedUserId d =
     (case validate_entries (ledger_entries data) of
        Some e \<Rightarrow> (Inl e, d)
      | None \<Rightarrow>
          (case authorize (ledger_entries data) authenticatedUserId d of
             Inl e \<Rightarrow> (Inl e, d)
           | Inr accounts \<Rightarrow>
               (case precheck accounts (ledger_entries data) of
                  Some e \<Rightarrow> (Inl e, d)
                | None \<Rightarrow>
                    if fails ev 0 then (Inl (StorageFailure 0), d)
                    else
                      let queryRunner = startTransaction d in
                      (case persisting ev data queryRunner of
                         (Inl e, q) \<Rightarrow> (Inl e, rollbackTransaction q)
                       | (Inr result, q) \<Rightarrow> (Inr result, commitTransaction q)))))"

section \<open>AccountService\<close>

record account_data =
  name :: string
  type :: AccountType
  currency :: AssetCode
  ownerId :: uuid

text \<open>
  \<^verbatim>\<open>Account.create\<close> of the model: the fields of the data, with
  \<^verbatim>\<open>balance: data.balance || 0n\<close>; the id is set by the database on insert.
\<close>

definition Account_create :: "account_data \<Rightarrow> int \<Rightarrow> Account" where
  "Account_create data bal =
     \<lparr>acc_id = [], acc_name = name data, acc_ownerId = ownerId data, acc_type = type data,
      acc_balance = (if bal \<noteq> 0 then bal else 0), acc_currency = currency data\<rparr>"

text \<open>Lines 22 to 45 of the account service.\<close>

definition AccountService_create :: "env \<Rightarrow> account_data \<Rightarrow> db \<Rightarrow> (error + Account) \<times> db" where
  "AccountService_create ev data d =
     (case find (\<lambda>c. cust_id c = ownerId data) (tbl_customers d) of
        None \<Rightarrow> (Inl CustomerNotFound, d)
      | Some customer \<Rightarrow>
          let account = (Account_create data 0)\<lparr>acc_id := gen ev 0\<rparr> in
          (Inr account, d\<lparr>tbl_accounts := tbl_accounts d @ [account]\<rparr>))"

definition findById :: "uuid \<Rightarrow> db \<Rightarrow> error + Account" where
  "findById x d = (case findOne_account x d of None \<Rightarrow> Inl AccountNotFoundById | Some account \<Rightarrow> Inr account)"

text \<open>Lines 105 to 118: the sum of the account's entries, written to the account row.\<close>

definition recalculateBalance :: "uuid \<Rightarrow> db \<Rightarrow> int \<times> db" where
  "recalculateBalance x d =
     (let ledgerEntries = filter (\<lambda>e. le_accountId e = x) (tbl_ledger_entries d);
          totalBalance = foldl (\<lambda>total entry. total + le_amount entry) 0 ledgerEntries
      in (totalBalance, update_balance x totalBalance d))"

record balance_report =
  rep_accountId :: uuid
  rep_balance :: int
  rep_cachedBalance :: int
  rep_currency :: AssetCode
  rep_inSync :: bool

text \<open>Lines 120 to 137.\<close>

definition getBalanceRealTime :: "uuid \<Rightarrow> db \<Rightarrow> (error + balance_report) \<times> db" where
  "getBalanceRealTime x d =
     (case findById x d of
        Inl e \<Rightarrow> (Inl e, d)
      | Inr account \<Rightarrow>
          let (realTimeBalance, d') = recalculateBalance x d in
          (Inr \<lparr>rep_accountId = acc_id account, rep_balance = realTimeBalance,
                rep_cachedBalance = acc_balance account, rep_currency = acc_currency account,
                rep_inSync = (realTimeBalance = acc_balance account)\<rparr>, d'))"

section \<open>Reference notions and example stores\<close>

text \<open>
  The sum of the amounts of the ledger entries persisted for an account, and the
  consistency of the cached balances with it.
\<close>

definition ledger_sum :: "uuid \<Rightarrow> db \<Rightarrow> int" where
  "ledger_sum x d = sum_list (map le_amount (filter (\<lambda>e. le_accountId e = x) (tbl_ledger_entries d)))"


text \<open>The amounts a list of submitted entries moves on one account.\<close>

definition entries_sum :: "uuid \<Rightarrow> entry_data list \<Rightarrow> int" where
  "entries_sum x es =
     sum_list (map amount (filter (\<lambda>e. uuid_value (accountId e) = uuid_value x) es))"

text \<open>
  Stores as the integration tests set them up: one customer, \<open>alice\<close>, who owns every
  account, all in the same currency. In \<open>ex_db\<close> the ASSET account \<open>A\<close> holds 50000 and
  the ASSET account \<open>B\<close> holds 0, with no ledger entry yet, as the fixtures create them.
\<close>

definition ex_env :: env where
  "ex_env = \<lparr>gen = (\<lambda>n. CHR ''g'' # replicate n CHR ''x''), fails = (\<lambda>k. False)\<rparr>"

definition ex_failing_env :: "nat \<Rightarrow> env" where
  "ex_failing_env n = \<lparr>gen = (\<lambda>n. CHR ''g'' # replicate n CHR ''x''), fails = (\<lambda>k. k = n)\<rparr>"

definition ex_account :: "uuid \<Rightarrow> AccountType \<Rightarrow> int \<Rightarrow> Account" where
  "ex_account i t b =
     \<lparr>acc_id = i, acc_name = i, acc_ownerId = ''alice'', acc_type = t, acc_balance = b,
      acc_currency = BRL\<rparr>"

definition ex_ledger :: "uuid \<Rightarrow> uuid \<Rightarrow> int \<Rightarrow> LedgerEntry" where
  "ex_ledger i x n = \<lparr>le_id = i, le_transactionId = ''t'', le_accountId = x, le_amount = n\<rparr>"

definition ex_store :: "Account list \<Rightarrow> LedgerEntry list \<Rightarrow> db" where
  "ex_store as ls =
     \<lparr>tbl_customers = [\<lparr>cust_id = ''alice'', cust_email = ''a@x'', cust_password = ''h'',
                        cust_name = ''Alice''\<rparr>],
      tbl_accounts = as, tbl_transactions = [], tbl_ledger_entries = ls\<rparr>"

definition ex_db :: db where
  "ex_db = ex_store [ex_account ''A'' ASSET 50000, ex_account ''B'' ASSET 0] []"

definition ex_entry :: "uuid \<Rightarrow> int \<Rightarrow> entry_data" where
  "ex_entry i n = \<lparr>accountId = i, amount = n\<rparr>"

definition ex_data :: "entry_data list \<Rightarrow> create_data" where
  "ex_data es = \<lparr>description = ''transfer'', actorId = ''alice'', actorType = USER, ledger_entries = es\<rparr>"

text \<open>
  The same two accounts under ids in lower case, as the database returns them, a
  transfer of 10000 between them, one of 100000 that the first cannot cover, and that
  one again with the first id written in upper case.
\<close>

definition ex_bank :: db where
  "ex_bank = ex_store [ex_account ''a1'' ASSET 50000, ex_account ''b2'' ASSET 0] []"

definition ex_transfer :: create_data where
  "ex_transfer = ex_data [ex_entry ''a1'' (- 10000), ex_entry ''b2'' 10000]"

definition ex_overdraft :: create_data where
  "ex_overdraft = ex_data [ex_entry ''a1'' (- 100000), ex_entry ''b2'' 100000]"

definition ex_overdraft_upper :: create_data where
  "ex_overdraft_upper = ex_data [ex_entry ''A1'' (- 100000), ex_entry ''b2'' 100000]"

text \<open>The store once another transfer has emptied the first account.\<close>

definition ex_drained :: db where
  "ex_drained = ex_store [ex_account ''a1'' ASSET 0, ex_account ''b2'' ASSET 0] []"

text \<open>A transaction entity that carries an id, unlike those the model class builds.\<close>

definition ex_saved_transaction :: Transaction where
  "ex_saved_transaction =
     \<lparr>tx_id = ''c4'', tx_description = ''transfer'', tx_actorId = ''alice'', tx_actorType = USER\<rparr>"

text \<open>A cached balance of 50000 over a history that sums to 40000.\<close>

definition ex_drifted :: db where
  "ex_drifted = ex_store [ex_account ''A'' ASSET 50000] [ex_ledger ''l1'' ''A'' 40000]"

text \<open>
  A store whose balances agree with its ledger: the first account was funded from an
  equity account.
\<close>

definition ex_funded :: db where
  "ex_funded = ex_store
     [ex_account ''a1'' ASSET 50000, ex_account ''b2'' ASSET 0, ex_account ''e3'' EQUITY (- 50000)]
     [ex_ledger ''f5'' ''a1'' 50000, ex_ledger ''f6'' ''e3'' (- 50000)]"

definition ex_history :: db where
  "ex_history = ex_store [ex_account ''A'' ASSET 3]
     [ex_ledger ''l1'' ''A'' 5, ex_ledger ''l2'' ''B'' 7, ex_ledger ''l3'' ''A'' (- 2)]"

definition ex_history_reordered :: db where
  "ex_history_reordered = ex_store [ex_account ''A'' ASSET 3]
     [ex_ledger ''l3'' ''A'' (- 2), ex_ledger ''l2'' ''B'' 7, ex_ledger ''l1'' ''A'' 5]"

definition ex_new_account :: "uuid \<Rightarrow> account_data" where
  "ex_new_account owner = \<lparr>name = ''Savings'', type = ASSET, currency = USD, ownerId = owner\<rparr>"

lemmas ex_defs = ex_store_def ex_account_def ex_entry_def ex_data_def ex_env_def ex_db_def
  ex_ledger_def ex_bank_def ex_drained_def ex_transfer_def ex_overdraft_def
  ex_overdraft_upper_def ex_saved_transaction_def ex_drifted_def ex_funded_def
  ex_history_def ex_history_reordered_def ex_new_account_def ex_failing_env_def

lemmas store_defs = findOne_account_def find_accounts_def save_account_def save_transaction_def
  save_entry_def stored_transaction_def stored_entry_def update_balance_def
  startTransaction_def commitTransaction_def rollbackTransaction_def manager_save_def
  manager_findOne_account_def uuid_value_def lower_hex_def

section \<open>Validation of the entries\<close>

lemma foldl_amount: "foldl (\<lambda>acc entry. acc + amount entry) a es = a + sum_list (map amount es)"
  by (induction es arbitrary: a) simp_all

lemma validate_unbalanced:
  "sum_list (map amount es) \<noteq> 0 \<Longrightarrow> validate_entries es = Some UnbalancedTransaction"
  by (simp add: validate_entries_def foldl_amount)

lemma validate_count:
  "sum_list (map amount es) = 0 \<Longrightarrow> length es < 2 \<Longrightarrow> validate_entries es = Some InvalidEntryCount"
  by (simp add: validate_entries_def foldl_amount)

lemma validate_zero:
  "sum_list (map amount es) = 0 \<Longrightarrow> 2 \<le> length es \<Longrightarrow> \<exists>e\<in>set es. amount e = 0
     \<Longrightarrow> validate_entries es = Some ZeroAmountEntry"
  by (auto simp add: validate_entries_def foldl_amount list_ex_iff)

lemma create_validation_error:
  "validate_entries (ledger_entries data) = Some e
     \<Longrightarrow> TransactionService_create ev data uid d = (Inl e, d)"
  by (simp add: TransactionService_create_def)

text \<open>
  Claim C4 says that the entry count is checked first, so that a list of fewer than two
  entries always gives InvalidEntryCount. The code sums the amounts first: the single
  entry \<open>(A, -10000)\<close> is rejected as unbalanced.
\<close>

theorem single_entry_counterexample:
  "length (ledger_entries (ex_data [ex_entry ''A'' (- 10000)])) < 2 \<and>
   fst (TransactionService_create ex_env (ex_data [ex_entry ''A'' (- 10000)]) ''alice'' ex_db)
     = Inl UnbalancedTransaction \<and>
   fst (TransactionService_create ex_env (ex_data [ex_entry ''A'' (- 10000)]) ''alice'' ex_db)
     \<noteq> Inl InvalidEntryCount"
  by (simp add: TransactionService_create_def validate_entries_def ex_data_def ex_entry_def)

text \<open>
  Claim C4, amended: the rules are evaluated with first failure winning in the order
  nonzero sum (UnbalancedTransaction), then fewer than two entries (InvalidEntryCount),
  then a zero amount (ZeroAmountEntry). So a list of fewer than two entries is rejected
  with UnbalancedTransaction when its amounts do not sum to zero and with
  InvalidEntryCount when they do; each of these errors leaves the store as it was.
\<close>

theorem validation_order:
  "(sum_list (map amount (ledger_entries data)) \<noteq> 0
      \<longrightarrow> TransactionService_create ev data uid d = (Inl UnbalancedTransaction, d)) \<and>
   (sum_list (map amount (ledger_entries data)) = 0 \<and> length (ledger_entries data) < 2
      \<longrightarrow> TransactionService_create ev data uid d = (Inl InvalidEntryCount, d)) \<and>
   (sum_list (map amount (ledger_entries data)) = 0 \<and> 2 \<le> length (ledger_entries data) \<and>
    (\<exists>e\<in>set (ledger_entries data). amount e = 0)
      \<longrightarrow> TransactionService_create ev data uid d = (Inl ZeroAmountEntry, d))"
  using validate_unbalanced validate_count validate_zero create_validation_error
  by blast

theorem validation_order_witness:
  "sum_list (map amount [ex_entry ''A'' (- 10000)]) \<noteq> 0 \<and>
   TransactionService_create ex_env (ex_data [ex_entry ''A'' (- 10000)]) ''alice'' ex_db
     = (Inl UnbalancedTransaction, ex_db) \<and>
   sum_list (map amount ([] :: entry_data list)) = 0 \<and>
   TransactionService_create ex_env (ex_data []) ''alice'' ex_db = (Inl InvalidEntryCount, ex_db) \<and>
   sum_list (map amount [ex_entry ''A'' 0, ex_entry ''B'' 0]) = 0 \<and>
   TransactionService_create ex_env (ex_data [ex_entry ''A'' 0, ex_entry ''B'' 0]) ''alice'' ex_db
     = (Inl ZeroAmountEntry, ex_db)"
  using validation_order [of "ex_data [ex_entry ''A'' (- 10000)]" ex_env "''alice''" ex_db]
        validation_order [of "ex_data []" ex_env "''alice''" ex_db]
        validation_order [of "ex_data [ex_entry ''A'' 0, ex_entry ''B'' 0]" ex_env "''alice''" ex_db]
  by (simp add: ex_data_def ex_entry_def)

section \<open>Resolving the accounts\<close>

lemma lower_hex_idem [simp]: "lower_hex (lower_hex c) = lower_hex c"
  by (simp add: lower_hex_def)

lemma uuid_value_idem [simp]: "uuid_value (uuid_value x) = uuid_value x"
  by (simp add: uuid_value_def)

text \<open>
  With the account ids unique in the table, as a primary key is, the number of rows
  found equals the number of entries exactly when the entries name pairwise different
  ids that all exist: the error is raised for a missing id and also for a repeated one.
\<close>

lemma length_find_accounts:
  assumes "distinct (map (\<lambda>a. uuid_value (acc_id a)) (tbl_accounts d))"
  shows "length (find_accounts ids d) =
           card (set (map uuid_value ids) \<inter> (\<lambda>a. uuid_value (acc_id a)) ` set (tbl_accounts d))"
proof -
  have "length (find_accounts ids d) =
      length (filter (\<lambda>i. i \<in> set (map uuid_value ids)) (map (\<lambda>a. uuid_value (acc_id a)) (tbl_accounts d)))"
    by (simp add: find_accounts_def filter_map o_def)
  also have "\<dots> = card ({i. i \<in> set (map uuid_value ids)} \<inter>
      set (map (\<lambda>a. uuid_value (acc_id a)) (tbl_accounts d)))"
    using assms by (rule distinct_length_filter)
  finally show ?thesis by simp
qed

lemma card_inter_eq_length:
  "card (set ids \<inter> X) = length ids \<longleftrightarrow> distinct ids \<and> set ids \<subseteq> X"
proof
  assume eq: "card (set ids \<inter> X) = length ids"
  have le1: "card (set ids \<inter> X) \<le> card (set ids)"
    by (simp add: card_mono)
  have le2: "card (set ids) \<le> length ids"
    by (rule card_length)
  from eq le1 le2 have c: "card (set ids) = length ids" and i: "card (set ids \<inter> X) = card (set ids)"
    by simp_all
  from c have "distinct ids" by (simp add: card_distinct)
  moreover from i have "set ids \<inter> X = set ids"
    by (intro card_subset_eq) simp_all
  ultimately show "distinct ids \<and> set ids \<subseteq> X" by blast
next
  assume "distinct ids \<and> set ids \<subseteq> X"
  then show "card (set ids \<inter> X) = length ids"
    by (simp add: Int_absorb2 distinct_card)
qed

lemma authorize_not_found_iff:
  assumes "distinct (map (\<lambda>a. uuid_value (acc_id a)) (tbl_accounts d))"
  shows "authorize es uid d = Inl AccountNotFound \<longleftrightarrow>
           \<not> (distinct (map uuid_value (map accountId es)) \<and>
              set (map uuid_value (map accountId es))
                \<subseteq> (\<lambda>a. uuid_value (acc_id a)) ` set (tbl_accounts d))"
proof -
  have "authorize es uid d = Inl AccountNotFound \<longleftrightarrow>
          length (find_accounts (map accountId es) d) \<noteq> length (map uuid_value (map accountId es))"
    by (simp add: authorize_def Let_def)
  also have "\<dots> \<longleftrightarrow> \<not> (distinct (map uuid_value (map accountId es)) \<and>
      set (map uuid_value (map accountId es)) \<subseteq> (\<lambda>a. uuid_value (acc_id a)) ` set (tbl_accounts d))"
    unfolding length_find_accounts [OF assms] card_inter_eq_length ..
  finally show ?thesis .
qed

text \<open>
  Claim C8 says that two entries on the same existing account do not fail with
  AccountNotFound. The code compares the number of rows found with the number of
  entries, and the query returns each row once: with both entries on the existing
  account \<open>A\<close> it finds one row for two entries and throws 'One or more accounts not found'.
\<close>

theorem duplicate_account_not_found:
  "map acc_id (find_accounts (map accountId [ex_entry ''A'' (- 100), ex_entry ''A'' 100]) ex_db)
     = [''A''] \<and>
   fst (TransactionService_create ex_env (ex_data [ex_entry ''A'' (- 100), ex_entry ''A'' 100])
         ''alice'' ex_db)
     = Inl AccountNotFound"
  by (simp add: TransactionService_create_def validate_entries_def authorize_def
      store_defs ex_defs Let_def)

section \<open>The unit of work\<close>

lemma find_SomeD: "find P xs = Some x \<Longrightarrow> P x \<and> x \<in> set xs"
  by (induction xs) (auto split: if_splits)

text \<open>Inside the unit the runner's persisted state is never written.\<close>

lemma persisted_manager_save [simp]: "persisted (manager_save write q) = persisted q"
  by (simp add: manager_save_def)

lemma persist_entries_persisted:
  "persisted (snd (persist_entries ev tid es k q saved)) = persisted q"
  by (induction ev tid es k q saved rule: persist_entries.induct)
     (simp_all add: Let_def split: option.splits)

lemma try_block_persisted: "persisted (snd (try_block ev t es q)) = persisted q"
proof -
  have "persisted (snd (persist_entries ev (tx_id t) es 2 (manager_save (save_transaction t) q) []))
      = persisted q"
    by (simp add: persist_entries_persisted)
  then show ?thesis
    by (auto simp: try_block_def Let_def split: prod.splits sum.splits)
qed

text \<open>The errors raised inside the unit are those of the storage layer.\<close>

lemma persist_entries_error:
  "fst (persist_entries ev tid es k q saved) = Inl e \<Longrightarrow> \<exists>j. e = StorageFailure j"
  by (induction ev tid es k q saved rule: persist_entries.induct)
     (auto simp: Let_def split: if_splits option.splits)

lemma persist_entries_Inl:
  "persist_entries ev tid es k q saved = (Inl e, q') \<Longrightarrow> \<exists>j. e = StorageFailure j"
  using persist_entries_error [of ev tid es k q saved e] by simp

lemma try_block_error:
  "fst (try_block ev t es q) = Inl e \<Longrightarrow> e = InvalidUuid \<or> (\<exists>j. e = StorageFailure j)"
  by (auto simp: try_block_def Let_def split: if_splits prod.splits sum.splits
      dest: persist_entries_Inl)

text \<open>
  As the code stands, the entity saved has the empty id, so the body of \<^verbatim>\<open>try\<close>
  throws at its first storage operation, with nothing written.
\<close>

lemma persisting_throws:
  "persisting ev data q = (Inl (if fails ev 1 then StorageFailure 1 else InvalidUuid), q)"
  by (simp add: persisting_def try_block_def Transaction_create_def)

lemma create_runs_unit:
  "TransactionService_create ev data uid d =
     (case validate_entries (ledger_entries data) of
        Some e \<Rightarrow> (Inl e, d)
      | None \<Rightarrow>
          (case authorize (ledger_entries data) uid d of
             Inl e \<Rightarrow> (Inl e, d)
           | Inr accounts \<Rightarrow>
               (case precheck accounts (ledger_entries data) of
                  Some e \<Rightarrow> (Inl e, d)
                | None \<Rightarrow> unit_of_work ev (Transaction_create data) (ledger_entries data) d)))"
  by (simp add: TransactionService_create_def unit_of_work_def persisting_def
      split: option.splits sum.splits)

lemma unit_of_work_error:
  assumes "fst (unit_of_work ev t es d) = Inl e"
  shows "snd (unit_of_work ev t es d) = d"
proof (cases "fails ev 0")
  case True
  then show ?thesis by (simp add: unit_of_work_def)
next
  case False
  obtain res q where run: "try_block ev t es (startTransaction d) = (res, q)"
    by (cases "try_block ev t es (startTransaction d)")
  from try_block_persisted [of ev t es "startTransaction d"] run
  have kept: "persisted q = d"
    by (simp add: startTransaction_def)
  from assms False run obtain e' where "res = Inl e'"
    by (cases res) (simp_all add: unit_of_work_def Let_def)
  with False run kept show ?thesis
    by (simp add: unit_of_work_def Let_def rollbackTransaction_def)
qed

section \<open>Errors leave the store unchanged\<close>

text \<open>
  Claim C1: whenever create returns an error, whether from the checks before the unit
  of work or from a storage operation that throws inside it, the persisted state after
  the call is the state before it: no transaction row, no ledger entry and no balance
  change survives. The checks return before anything is written. Inside the unit the
  rows are written to the runner's working copy, and the rollback of the
  \<^verbatim>\<open>catch\<close> gives back the persisted state: this holds for the unit run on any
  transaction entity, at whichever storage operation it throws.
\<close>

theorem create_error_leaves_state:
  "(fst (TransactionService_create ev data uid d) = Inl e
      \<longrightarrow> snd (TransactionService_create ev data uid d) = d) \<and>
   (fst (unit_of_work ev t es d) = Inl e
      \<longrightarrow> snd (unit_of_work ev t es d) = d)"
proof (intro conjI impI)
  assume err: "fst (TransactionService_create ev data uid d) = Inl e"
  show "snd (TransactionService_create ev data uid d) = d"
  proof (cases "validate_entries (ledger_entries data)")
    case (Some v)
    then show ?thesis by (simp add: create_runs_unit)
  next
    case None
    note valid = this
    show ?thesis
    proof (cases "authorize (ledger_entries data) uid d")
      case (Inl a)
      with valid show ?thesis by (simp add: create_runs_unit)
    next
      case (Inr accounts)
      note resolved = this
      show ?thesis
      proof (cases "precheck accounts (ledger_entries data)")
        case (Some b)
        with valid resolved show ?thesis by (simp add: create_runs_unit)
      next
        case None
        with valid resolved have unit: "TransactionService_create ev data uid d =
            unit_of_work ev (Transaction_create data) (ledger_entries data) d"
          by (simp add: create_runs_unit)
        with err unit_of_work_error [of ev "Transaction_create data" "ledger_entries data" d e]
        show ?thesis by simp
      qed
    qed
  qed
next
  assume "fst (unit_of_work ev t es d) = Inl e"
  then show "snd (unit_of_work ev t es d) = d"
    by (rule unit_of_work_error)
qed

text \<open>
  A valid transfer between the owner's two accounts passes the checks and fails inside
  the unit, at the save of the transaction row.
\<close>

theorem create_error_leaves_state_witness:
  "fst (TransactionService_create ex_env ex_transfer ''alice'' ex_bank) = Inl InvalidUuid \<and>
   snd (TransactionService_create ex_env ex_transfer ''alice'' ex_bank) = ex_bank \<and>
   fst (unit_of_work ex_env (Transaction_create ex_transfer) (ledger_entries ex_transfer) ex_bank)
     = Inl InvalidUuid \<and>
   snd (unit_of_work ex_env (Transaction_create ex_transfer) (ledger_entries ex_transfer) ex_bank)
     = ex_bank"
proof -
  have unit: "fst (unit_of_work ex_env (Transaction_create ex_transfer) (ledger_entries ex_transfer) ex_bank)
     = Inl InvalidUuid"
    by (simp add: unit_of_work_def try_block_def Transaction_create_def ex_env_def)
  have err: "fst (TransactionService_create ex_env ex_transfer ''alice'' ex_bank) = Inl InvalidUuid"
    by (simp add: TransactionService_create_def validate_entries_def authorize_def
        persisting_throws store_defs ex_defs Let_def)
  from create_error_leaves_state [of ex_env ex_transfer "''alice''" ex_bank InvalidUuid
      "Transaction_create ex_transfer" "ledger_entries ex_transfer"] err unit
  show ?thesis by simp
qed

text \<open>
  The unit run on an entity that carries an id writes before it fails: when the save
  of the second ledger entry throws, the working copy holds the transaction row, the
  first entry and the first account's new balance, and the rollback discards them.
\<close>

lemma rollback_discards_written_rows:
  "fst (try_block (ex_failing_env 5) ex_saved_transaction (ledger_entries ex_transfer)
         (startTransaction ex_bank)) = Inl (StorageFailure 5) \<and>
   map le_amount (tbl_ledger_entries (working (snd
     (try_block (ex_failing_env 5) ex_saved_transaction (ledger_entries ex_transfer)
        (startTransaction ex_bank))))) = [- 10000] \<and>
   map acc_balance (tbl_accounts (working (snd
     (try_block (ex_failing_env 5) ex_saved_transaction (ledger_entries ex_transfer)
        (startTransaction ex_bank))))) = [40000, 0] \<and>
   unit_of_work (ex_failing_env 5) ex_saved_transaction (ledger_entries ex_transfer) ex_bank
     = (Inl (StorageFailure 5), ex_bank)"
  by (simp add: unit_of_work_def try_block_def store_defs ex_defs Let_def)

section \<open>The balance check before the unit of work\<close>

lemma precheck_Some:
  "precheck accs es = Some err \<Longrightarrow>
     \<exists>entry\<in>set es. \<exists>a. find (\<lambda>acc. acc_id acc = accountId entry) accs = Some a \<and>
        acc_type a = ASSET \<and> acc_balance a + amount entry < 0 \<and>
        err = InsufficientBalance (acc_name a) (acc_balance a) (- amount entry)"
  by (induction es) (auto split: option.splits if_splits)

lemma precheck_None:
  "precheck accs es = None \<Longrightarrow> entry \<in> set es \<Longrightarrow>
     find (\<lambda>acc. acc_id acc = accountId entry) accs = Some a \<Longrightarrow>
     \<not> (acc_type a = ASSET \<and> acc_balance a + amount entry < 0)"
  by (induction es) (auto split: option.splits if_splits)

text \<open>
  Claim C5 says that every entry whose resolved account is of type ASSET and whose
  amount added to the balance read is negative makes create fail with
  InsufficientBalance. The code looks the entry's account up among the resolved rows by
  the text of the id. The ASSET account \<open>a1\<close> holds 50000; the entry that takes 100000
  from it under the id \<open>A1\<close> is resolved by the database, both rows being found, but
  the lookup by text finds no account for it and the entry is passed over: the check
  lets the call through, and it fails later, in the unit, with the storage error. The
  same entry under the id \<open>a1\<close> is refused with InsufficientBalance.
\<close>

theorem floor_check_skipped_for_upper_case_id:
  "validate_entries (ledger_entries ex_overdraft_upper) = None \<and>
   authorize (ledger_entries ex_overdraft_upper) ''alice'' ex_bank = Inr (tbl_accounts ex_bank) \<and>
   map acc_type (tbl_accounts ex_bank) = [ASSET, ASSET] \<and>
   map acc_balance (tbl_accounts ex_bank) = [50000, 0] \<and>
   precheck (tbl_accounts ex_bank) (ledger_entries ex_overdraft_upper) = None \<and>
   TransactionService_create ex_env ex_overdraft_upper ''alice'' ex_bank = (Inl InvalidUuid, ex_bank) \<and>
   TransactionService_create ex_env ex_overdraft ''alice'' ex_bank
     = (Inl (InsufficientBalance ''a1'' 50000 100000), ex_bank)"
  by (simp add: TransactionService_create_def validate_entries_def authorize_def
      persisting_throws store_defs ex_defs Let_def)

section \<open>The persisting step\<close>


lemma lookup_save_entry [simp]:
  "manager_findOne_account y (manager_save (save_entry e) q) = manager_findOne_account y q"
  by (simp add: manager_findOne_account_def manager_save_def save_entry_def)



lemma entries_sum_Nil [simp]: "entries_sum x [] = 0"
  by (simp add: entries_sum_def)



lemma ledger_manager_save_account [simp]:
  "tbl_ledger_entries (working (manager_save (save_account a) q)) = tbl_ledger_entries (working q)"
  by (simp add: manager_save_def save_account_def)

lemma ledger_manager_save_entry [simp]:
  "tbl_ledger_entries (working (manager_save (save_entry e) q)) =
     tbl_ledger_entries (working q) @ [stored_entry e]"
  by (simp add: manager_save_def save_entry_def)





section \<open>Balances and ledger history\<close>


section \<open>Recalculating a balance\<close>

lemma foldl_le_amount:
  "foldl (\<lambda>total entry. total + le_amount entry) a es = a + sum_list (map le_amount es)"
  by (induction es arbitrary: a) simp_all

lemma recalculate_value: "fst (recalculateBalance x d) = ledger_sum x d"
  by (simp add: recalculateBalance_def ledger_sum_def foldl_le_amount Let_def)

lemma ledger_sum_mset:
  "ledger_sum x d =
     sum_mset (image_mset le_amount (filter_mset (\<lambda>e. le_accountId e = x) (mset (tbl_ledger_entries d))))"
  by (simp add: ledger_sum_def flip: sum_mset_sum_list)

lemma update_balance_ledger [simp]:
  "tbl_ledger_entries (update_balance x b d) = tbl_ledger_entries d"
  by (simp add: update_balance_def)

lemma update_balance_twice: "update_balance x b (update_balance x b d) = update_balance x b d"
  by (simp add: update_balance_def o_def cong: if_cong)

text \<open>
  Claim C7: the recalculated balance of an account is the sum of the amounts of all the
  ledger entries persisted for it; it is the same for every store whose ledger holds
  the same entries in another order; and recalculating again returns the same value and
  leaves the same store.
\<close>

theorem recalculate_is_ledger_sum:
  "fst (recalculateBalance x d) =
     sum_list (map le_amount (filter (\<lambda>e. le_accountId e = x) (tbl_ledger_entries d))) \<and>
   (\<forall>d'. mset (tbl_ledger_entries d') = mset (tbl_ledger_entries d)
      \<longrightarrow> fst (recalculateBalance x d') = fst (recalculateBalance x d)) \<and>
   recalculateBalance x (snd (recalculateBalance x d)) = recalculateBalance x d"
proof (intro conjI allI impI)
  show "fst (recalculateBalance x d) =
     sum_list (map le_amount (filter (\<lambda>e. le_accountId e = x) (tbl_ledger_entries d)))"
    using recalculate_value [of x d] by (simp add: ledger_sum_def)
next
  fix d' :: db assume "mset (tbl_ledger_entries d') = mset (tbl_ledger_entries d)"
  then show "fst (recalculateBalance x d') = fst (recalculateBalance x d)"
    by (simp add: recalculate_value ledger_sum_mset)
next
  show "recalculateBalance x (snd (recalculateBalance x d)) = recalculateBalance x d"
    by (simp add: recalculateBalance_def Let_def update_balance_twice)
qed

theorem recalculate_is_ledger_sum_witness:
  "mset (tbl_ledger_entries ex_history_reordered) = mset (tbl_ledger_entries ex_history) \<and>
   fst (recalculateBalance ''A'' ex_history_reordered) = fst (recalculateBalance ''A'' ex_history) \<and>
   fst (recalculateBalance ''A'' ex_history) = 3"
proof -
  have perm: "mset (tbl_ledger_entries ex_history_reordered) = mset (tbl_ledger_entries ex_history)"
    by (simp add: ex_defs add_mset_commute)
  from recalculate_is_ledger_sum [of "''A''" ex_history] perm
  have "fst (recalculateBalance ''A'' ex_history_reordered) = fst (recalculateBalance ''A'' ex_history)"
    and "fst (recalculateBalance ''A'' ex_history) = 3"
    by (simp_all add: ex_defs)
  with perm show ?thesis by simp
qed

lemma find_update_balance:
  "find (\<lambda>a. acc_id a = y) (map (\<lambda>r. if acc_id r = x then r\<lparr>acc_balance := b\<rparr> else r) rows) =
     (if y = x then map_option (\<lambda>a. a\<lparr>acc_balance := b\<rparr>) (find (\<lambda>a. acc_id a = y) rows)
      else find (\<lambda>a. acc_id a = y) rows)"
  by (induction rows) auto

lemma findOne_update_balance:
  "findOne_account y (update_balance x b d) =
     (if y = x then map_option (\<lambda>a. a\<lparr>acc_balance := b\<rparr>) (findOne_account y d)
      else findOne_account y d)"
  by (simp add: findOne_account_def update_balance_def find_update_balance)

lemma snd_recalculate: "snd (recalculateBalance x d) = update_balance x (ledger_sum x d) d"
  by (simp add: recalculateBalance_def ledger_sum_def foldl_le_amount Let_def)

text \<open>
  Claim C3 says that an audit never changes the cached balance. The audit method
  getBalanceRealTime calls recalculateBalance, which always writes its sum to the
  account row: on an account created with balance 50000 and no ledger entry, as the
  fixtures create them, the cached balance is 0 after the call.
\<close>

theorem audit_overwrites_balance:
  "map acc_balance (tbl_accounts (ex_store [ex_account ''A'' ASSET 50000] [])) = [50000] \<and>
   map acc_balance (tbl_accounts (snd (getBalanceRealTime ''A'' (ex_store [ex_account ''A'' ASSET 50000] []))))
     = [0]"
  by (simp add: getBalanceRealTime_def findById_def findOne_account_def recalculateBalance_def
      update_balance_def ex_defs Let_def)

text \<open>
  Claim C3, amended: recalculating always persists. For an existing account,
  recalculateBalance writes the sum of the account's ledger entries into the cached
  balance on every call, and getBalanceRealTime, which calls it, reports that sum, the
  cached balance as it was before the call and whether the two agree. After either
  call the cached balance is the recalculated sum; it is what it was before only when
  it already equalled that sum. There is no persist flag and no separate repair request.
\<close>

theorem recalculate_always_persists:
  assumes "findOne_account x d = Some a"
  shows "findOne_account x (snd (recalculateBalance x d)) = Some (a\<lparr>acc_balance := ledger_sum x d\<rparr>) \<and>
         getBalanceRealTime x d =
           (Inr \<lparr>rep_accountId = acc_id a, rep_balance = ledger_sum x d,
                 rep_cachedBalance = acc_balance a, rep_currency = acc_currency a,
                 rep_inSync = (ledger_sum x d = acc_balance a)\<rparr>,
            snd (recalculateBalance x d)) \<and>
         (findOne_account x (snd (getBalanceRealTime x d)) = Some a
            \<longleftrightarrow> acc_balance a = ledger_sum x d)"
proof -
  have one: "findOne_account x (snd (recalculateBalance x d)) = Some (a\<lparr>acc_balance := ledger_sum x d\<rparr>)"
    using assms by (simp add: snd_recalculate findOne_update_balance)
  have two: "getBalanceRealTime x d =
           (Inr \<lparr>rep_accountId = acc_id a, rep_balance = ledger_sum x d,
                 rep_cachedBalance = acc_balance a, rep_currency = acc_currency a,
                 rep_inSync = (ledger_sum x d = acc_balance a)\<rparr>,
            snd (recalculateBalance x d))"
    using assms recalculate_value [of x d]
    by (simp add: getBalanceRealTime_def findById_def case_prod_beta)
  have three: "(a\<lparr>acc_balance := ledger_sum x d\<rparr> = a) \<longleftrightarrow> acc_balance a = ledger_sum x d"
    by (cases a) auto
  from one two three show ?thesis by simp
qed

theorem recalculate_always_persists_witness:
  "findOne_account ''A'' ex_drifted = Some (ex_account ''A'' ASSET 50000) \<and>
   findOne_account ''A'' (snd (recalculateBalance ''A'' ex_drifted)) = Some (ex_account ''A'' ASSET 40000) \<and>
   fst (getBalanceRealTime ''A'' ex_drifted) =
     Inr \<lparr>rep_accountId = ''A'', rep_balance = 40000, rep_cachedBalance = 50000,
          rep_currency = BRL, rep_inSync = False\<rparr>"
proof -
  have look: "findOne_account ''A'' ex_drifted = Some (ex_account ''A'' ASSET 50000)"
    by (simp add: store_defs ex_defs)
  have total: "ledger_sum ''A'' ex_drifted = 40000"
    by (simp add: ledger_sum_def ex_defs)
  from recalculate_always_persists [OF look] look total show ?thesis
    by (simp add: ex_account_def)
qed

section \<open>Creating an account\<close>

text \<open>
  Claim C10: an account created through the account service is persisted with balance
  0 and the name, type, currency and owner given; the data passed in has no balance
  field. When no customer has the owner id, the call fails with 'Customer not found' and
  the store is unchanged.
\<close>

theorem account_created_with_zero_balance:
  "(\<not> (\<exists>c\<in>set (tbl_customers d). cust_id c = ownerId data)
      \<longrightarrow> AccountService_create ev data d = (Inl CustomerNotFound, d)) \<and>
   ((\<exists>c\<in>set (tbl_customers d). cust_id c = ownerId data)
      \<longrightarrow> (\<exists>a. AccountService_create ev data d = (Inr a, d\<lparr>tbl_accounts := tbl_accounts d @ [a]\<rparr>) \<and>
               acc_balance a = 0 \<and> acc_name a = name data \<and> acc_type a = type data \<and>
               acc_currency a = currency data \<and> acc_ownerId a = ownerId data))"
  by (auto simp: AccountService_create_def Account_create_def Let_def find_None_iff
      split: option.splits dest: find_SomeD)

theorem account_created_with_zero_balance_witness:
  "AccountService_create ex_env (ex_new_account ''bob'') ex_db = (Inl CustomerNotFound, ex_db) \<and>
   (\<exists>a. AccountService_create ex_env (ex_new_account ''alice'') ex_db
           = (Inr a, ex_db\<lparr>tbl_accounts := tbl_accounts ex_db @ [a]\<rparr>) \<and> acc_balance a = 0)"
proof -
  have no: "\<not> (\<exists>c\<in>set (tbl_customers ex_db). cust_id c = ownerId (ex_new_account ''bob''))"
    and yes: "\<exists>c\<in>set (tbl_customers ex_db). cust_id c = ownerId (ex_new_account ''alice'')"
    by (simp_all add: ex_defs)
  from account_created_with_zero_balance [of ex_db "ex_new_account ''bob''" ex_env] no
  have one: "AccountService_create ex_env (ex_new_account ''bob'') ex_db = (Inl CustomerNotFound, ex_db)"
    by blast
  from account_created_with_zero_balance [of ex_db "ex_new_account ''alice''" ex_env] yes
  have two: "\<exists>a. AccountService_create ex_env (ex_new_account ''alice'') ex_db
           = (Inr a, ex_db\<lparr>tbl_accounts := tbl_accounts ex_db @ [a]\<rparr>) \<and> acc_balance a = 0"
    by blast
  from one two show ?thesis by blast
qed

end
